theory Spec2Isabelle
  imports Main "HOL-Library.AList"
begin

section \<open>The Python binding \<open>pyddq.core.Check\<close> over the data-quality engine\<close>

text \<open>
  \<open>src/python/pyddq/core.py\<close> defines one class, \<open>Check\<close>, whose methods forward to an
  engine object living in another runtime (reached through \<open>self._jvm\<close>) and wrap the
  handle that comes back. The class is embedded here as it is written: an instance is
  its attribute dictionary, every attribute read is a lookup that may raise
  \<open>AttributeError\<close>, and every method is a function into \<open>error + 'a\<close>.
  The engine itself is not part of the Python sources; the few engine operations the
  binding calls are modelled from the specification and marked as such.
\<close>

subsection \<open>Tabular data\<close>

datatype cell = IntV int | StrV string | NullV

text \<open>The engine-side table handle (\<open>dataFrame._jdf\<close>): an ordered schema of
  (column name, type name) and the rows.\<close>

record jDataFrame =
  schema :: "(string \<times> string) list"
  rows :: "cell list list"

datatype jvm = JvmView

text \<open>The Python-side \<open>DataFrame\<close>: the two attributes the binding reads from it,
  \<open>_sc._jvm\<close> and \<open>_jdf\<close>.\<close>

record DataFrame =
  sc_jvm :: jvm
  jdf :: jDataFrame

fun join :: "string \<Rightarrow> string list \<Rightarrow> string" where
  "join sep [] = []"
| "join sep [x] = x"
| "join sep (x # y # ys) = x @ sep @ join sep (y # ys)"

text \<open>\<open>str(dataFrame)\<close>. The class \<open>DataFrame\<close> belongs to the Spark library, whose
  \<open>__repr__\<close> renders the schema as \<open>DataFrame[name: type, ...]\<close>.\<close>

definition str_DataFrame :: "DataFrame \<Rightarrow> string" where
  "str_DataFrame df =
     ''DataFrame['' @ join '', '' (map (\<lambda>(n, t). n @ '': '' @ t) (schema (jdf df))) @ '']''"

subsection \<open>The engine's Check\<close>

datatype storageLevel = StorageLevel string

text \<open>Modelled from the spec: the engine's constraint kinds (section 3, Constraint);
  the engine's classes are not part of the Python sources.\<close>

datatype constraint =
    UniqueKey "string list"
  | NeverNull string
  | AlwaysNull string
  | ConvertibleTo string string
  | FormattedAsDate string string
  | AnyOf string "cell set"
  | MatchingRegex string string
  | FunctionalDependency "string list" "string list"
  | ForeignKey jDataFrame "(string \<times> string) list"
  | Joinable jDataFrame "(string \<times> string) list"
  | Satisfies string

text \<open>Modelled from the spec: the engine's Check value (section 3, Check):
  data source, optional display name, optional cache method, ordered constraints, id.\<close>

record jvmCheck =
  jdataFrame :: jDataFrame
  jdisplayName :: "string option"
  jcacheMethod :: "storageLevel option"
  jconstraints :: "constraint list"
  jid :: string

text \<open>Modelled from the spec: the engine constructor
  \<open>de.frosner.ddq.core.Check(dataFrame, displayName, cacheMethod, constraints, id)\<close>
  called at lines 19-23; it stores its five arguments.\<close>

definition jvm_Check ::
  "jDataFrame \<Rightarrow> string option \<Rightarrow> storageLevel option \<Rightarrow> constraint list \<Rightarrow> string \<Rightarrow> jvmCheck"
where
  "jvm_Check df dn cm cs i =
     \<lparr>jdataFrame = df, jdisplayName = dn, jcacheMethod = cm, jconstraints = cs, jid = i\<rparr>"

subsection \<open>Python values, truthiness and errors\<close>

datatype pyval =
    PyNone
  | PyStr string
  | PyDataFrame DataFrame
  | PyJvm jvm
  | PyJvmCheck jvmCheck
  | PyMethod string

text \<open>Truth value testing as \<open>if x:\<close>, \<open>not x\<close> and \<open>x or y\<close> use it: \<open>None\<close> and the
  empty string are false, objects without \<open>__len__\<close>/\<open>__nonzero__\<close> are true.\<close>

fun truthy :: "pyval \<Rightarrow> bool" where
  "truthy PyNone = False"
| "truthy (PyStr s) = (s \<noteq> [])"
| "truthy _ = True"

datatype error =
    AttributeError string
  | TypeError
  | ConstructionError

definition bindE :: "error + 'a \<Rightarrow> ('a \<Rightarrow> error + 'b) \<Rightarrow> error + 'b" where
  "bindE m f = (case m of Inl e \<Rightarrow> Inl e | Inr x \<Rightarrow> f x)"

text \<open>Reading a value as the kind of object the next operation needs; on a \<open>Check\<close>
  built by the constructor the other branch is never taken.\<close>

fun as_DataFrame :: "pyval \<Rightarrow> error + DataFrame" where
  "as_DataFrame (PyDataFrame df) = Inr df"
| "as_DataFrame _ = Inl TypeError"

fun as_jvm :: "pyval \<Rightarrow> error + jvm" where
  "as_jvm (PyJvm j) = Inr j"
| "as_jvm _ = Inl TypeError"

fun as_jvmCheck :: "pyval \<Rightarrow> error + jvmCheck" where
  "as_jvmCheck (PyJvmCheck c) = Inr c"
| "as_jvmCheck _ = Inl TypeError"

subsection \<open>The class \<open>Check\<close>: instances and the constructor\<close>

text \<open>An instance is its attribute dictionary, in assignment order.\<close>

datatype Check = CheckObj (inst_dict: "(string \<times> pyval) list")

definition setattr :: "Check \<Rightarrow> string \<Rightarrow> pyval \<Rightarrow> Check" where
  "setattr self n v = CheckObj (AList.update n v (inst_dict self))"

text \<open>The interpreter state the constructor reads: \<open>str(uuid4)\<close> is the text of the
  function object \<open>uuid4\<close> (of the form \<open><function uuid4 at 0x...>\<close>), fixed for the
  life of the process. Line 15 does not call \<open>uuid4\<close>.\<close>

record pyenv =
  str_uuid4 :: string

text \<open>\<open>Check.__init__\<close>, lines 7-23.\<close>

definition Check_init :: "pyenv \<Rightarrow> DataFrame \<Rightarrow> pyval \<Rightarrow> pyval \<Rightarrow> Check" where
  "Check_init env dataFrame displayName jvmCheck =
     (let self = CheckObj [];
          self = setattr self ''_dataFrame'' (PyDataFrame dataFrame);
          self = setattr self ''_jvm'' (PyJvm (sc_jvm dataFrame));
          self = setattr self ''_displayName'' displayName;
          displayName = None;
          cacheMethod = None;
          constraints = [];
          id = str_uuid4 env
      in if truthy jvmCheck
         then setattr self ''jvmCheck'' jvmCheck
         else setattr self ''jvmCheck''
                (PyJvmCheck (jvm_Check (jdf dataFrame) displayName cacheMethod constraints id)))"

subsection \<open>Attribute lookup and the four properties\<close>

definition Check_methods :: "string list" where
  "Check_methods =
     [''hasUniqueKey'', ''isNeverNull'', ''isAlwaysNull'', ''isConvertibleTo'',
      ''isFormattedAsDate'', ''isAnyOf'', ''isMatchingRegex'', ''hasFunctionalDependency'',
      ''hasForeignKey'', ''isJoinableWith'', ''satisfies'', ''run'']"

text \<open>Lookup of a name that is not a property of the class: the instance dictionary,
  then the methods of the class, else \<open>AttributeError\<close>.\<close>

definition inst_attr :: "Check \<Rightarrow> string \<Rightarrow> error + pyval" where
  "inst_attr self n =
     (case map_of (inst_dict self) n of
        Some v \<Rightarrow> Inr v
      | None \<Rightarrow> if n \<in> set Check_methods then Inr (PyMethod n) else Inl (AttributeError n))"

text \<open>Lines 24-26.\<close>

definition dataFrame :: "Check \<Rightarrow> error + pyval" where
  "dataFrame self = inst_attr self ''_dataFrame''"

text \<open>Lines 28-30: \<open>self._displayName or str(self.dataFrame)\<close>.\<close>

definition name :: "Check \<Rightarrow> error + pyval" where
  "name self =
     bindE (inst_attr self ''_displayName'') (\<lambda>d.
       if truthy d then Inr d
       else bindE (bindE (dataFrame self) as_DataFrame) (\<lambda>df. Inr (PyStr (str_DataFrame df))))"

text \<open>Lines 32-34.\<close>

definition cacheMethod :: "Check \<Rightarrow> error + pyval" where
  "cacheMethod self = inst_attr self ''_cacheMethod''"

text \<open>Lines 36-38: \<open>self._id or str(self.jvmCheck.id())\<close>.\<close>

definition jvmCheck_id :: "Check \<Rightarrow> error + string" where
  \<comment> \<open>\<open>self.jvmCheck.id()\<close>: the id held by the engine.\<close>
  "jvmCheck_id self =
     bindE (bindE (inst_attr self ''jvmCheck'') as_jvmCheck) (\<lambda>c. Inr (jid c))"

definition id_Check :: "Check \<Rightarrow> error + pyval" where
  "id_Check self =
     bindE (inst_attr self ''_id'') (\<lambda>i.
       if truthy i then Inr i
       else bindE (jvmCheck_id self) (\<lambda>s. Inr (PyStr s)))"

text \<open>\<open>self.n\<close> for any name: the properties of the class come first.\<close>

definition getattr :: "Check \<Rightarrow> string \<Rightarrow> error + pyval" where
  "getattr self n =
     (if n = ''dataFrame'' then dataFrame self
      else if n = ''name'' then name self
      else if n = ''cacheMethod'' then cacheMethod self
      else if n = ''id'' then id_Check self
      else inst_attr self n)"

subsection \<open>The engine operations the binding calls\<close>

text \<open>Modelled from the spec: a non-empty list of column names, none of them the empty
  text (section 4.2: arguments are validated to be non-empty; section 7: an empty column
  list is an invalid argument).\<close>

definition columns_nonempty :: "string list \<Rightarrow> bool" where
  "columns_nonempty cols = (cols \<noteq> [] \<and> list_all (\<lambda>c. c \<noteq> []) cols)"

text \<open>Modelled from the spec: a non-empty list of column pairs, no column name in it
  the empty text (section 4.2).\<close>

definition keys_nonempty :: "(string \<times> string) list \<Rightarrow> bool" where
  "keys_nonempty pairs = (pairs \<noteq> [] \<and> list_all (\<lambda>(a, b). a \<noteq> [] \<and> b \<noteq> []) pairs)"

text \<open>Modelled from the spec: argument validation of the engine's constraint-adding
  operations (section 4.2: each validates that its arguments are non-empty; section 7:
  an empty column list is an invalid argument). Every argument that can be empty is
  checked: a column name, a type, a pattern or a predicate must not be the empty text,
  a column list, a key list or a set of allowed values must have an element. Malformed
  patterns, the other invalid argument of section 7, are dealt with where a pattern
  enters: \<open>simpleDateFormat\<close> and \<open>jvm_isMatchingRegex\<close>.\<close>

fun args_nonempty :: "constraint \<Rightarrow> bool" where
  "args_nonempty (UniqueKey cols) = columns_nonempty cols"
| "args_nonempty (NeverNull col) = (col \<noteq> [])"
| "args_nonempty (AlwaysNull col) = (col \<noteq> [])"
| "args_nonempty (ConvertibleTo col ty) = (col \<noteq> [] \<and> ty \<noteq> [])"
| "args_nonempty (FormattedAsDate col pat) = (col \<noteq> [] \<and> pat \<noteq> [])"
| "args_nonempty (AnyOf col allowed) = (col \<noteq> [] \<and> allowed \<noteq> {})"
| "args_nonempty (MatchingRegex col pat) = (col \<noteq> [] \<and> pat \<noteq> [])"
| "args_nonempty (FunctionalDependency dets deps) =
     (columns_nonempty dets \<and> columns_nonempty deps)"
| "args_nonempty (ForeignKey ref pairs) = keys_nonempty pairs"
| "args_nonempty (Joinable ref pairs) = keys_nonempty pairs"
| "args_nonempty (Satisfies expr) = (expr \<noteq> [])"

text \<open>Modelled from the spec: adding a constraint in the engine (section 3): a new
  Check with the same data source, display name and cache method and the constraint
  sequence extended by one at the end; a construction error on invalid arguments.\<close>

definition addConstraint :: "jvmCheck \<Rightarrow> constraint \<Rightarrow> error + jvmCheck" where
  "addConstraint c k =
     (if args_nonempty k then Inr (c\<lparr>jconstraints := jconstraints c @ [k]\<rparr>)
      else Inl ConstructionError)"

text \<open>Modelled from the spec: the engine method \<open>hasUniqueKey(columnName, columnNames)\<close>.
  Each of the eleven engine methods adds the constraint of its kind (section 4.2), built
  from the arguments the binding passes.\<close>

definition jvm_hasUniqueKey :: "jvmCheck \<Rightarrow> string \<Rightarrow> string list \<Rightarrow> error + jvmCheck" where
  "jvm_hasUniqueKey c columnName columnNames = addConstraint c (UniqueKey (columnName # columnNames))"

text \<open>Modelled from the spec: the engine method \<open>isNeverNull(columnName)\<close>.\<close>

definition jvm_isNeverNull :: "jvmCheck \<Rightarrow> string \<Rightarrow> error + jvmCheck" where
  "jvm_isNeverNull c columnName = addConstraint c (NeverNull columnName)"

text \<open>Modelled from the spec: the engine method \<open>isAlwaysNull(columnName)\<close>.\<close>

definition jvm_isAlwaysNull :: "jvmCheck \<Rightarrow> string \<Rightarrow> error + jvmCheck" where
  "jvm_isAlwaysNull c columnName = addConstraint c (AlwaysNull columnName)"

text \<open>Modelled from the spec: the engine method \<open>isConvertibleTo(columnName, targetType)\<close>.\<close>

definition jvm_isConvertibleTo :: "jvmCheck \<Rightarrow> string \<Rightarrow> string \<Rightarrow> error + jvmCheck" where
  "jvm_isConvertibleTo c columnName jvmType = addConstraint c (ConvertibleTo columnName jvmType)"

text \<open>Modelled from the spec: the engine method \<open>isFormattedAsDate(columnName, dateFormat)\<close>.\<close>

definition jvm_isFormattedAsDate :: "jvmCheck \<Rightarrow> string \<Rightarrow> string \<Rightarrow> error + jvmCheck" where
  "jvm_isFormattedAsDate c columnName jvmFormat = addConstraint c (FormattedAsDate columnName jvmFormat)"

text \<open>Modelled from the spec: the engine method \<open>isAnyOf(columnName, allowed)\<close>.\<close>

definition jvm_isAnyOf :: "jvmCheck \<Rightarrow> string \<Rightarrow> cell set \<Rightarrow> error + jvmCheck" where
  "jvm_isAnyOf c columnName allowed = addConstraint c (AnyOf columnName allowed)"

text \<open>Modelled from the spec: the engine method \<open>isMatchingRegex(columnName, regexp)\<close>.
  A malformed pattern is a construction error (section 7); which texts are well-formed
  patterns is the other runtime's matter and enters as the parameter \<open>valid\<close>.\<close>

definition jvm_isMatchingRegex ::
  "(string \<Rightarrow> bool) \<Rightarrow> jvmCheck \<Rightarrow> string \<Rightarrow> string \<Rightarrow> error + jvmCheck" where
  "jvm_isMatchingRegex valid c columnName regexp =
     (if valid regexp then addConstraint c (MatchingRegex columnName regexp)
      else Inl ConstructionError)"

text \<open>Modelled from the spec: the engine method \<open>hasFunctionalDependency(determinantSet, dependentSet)\<close>.\<close>

definition jvm_hasFunctionalDependency ::
  "jvmCheck \<Rightarrow> string list \<Rightarrow> string list \<Rightarrow> error + jvmCheck" where
  "jvm_hasFunctionalDependency c determinantSet dependentSet =
     addConstraint c (FunctionalDependency determinantSet dependentSet)"

text \<open>Modelled from the spec: the engine method \<open>hasForeignKey(referenceTable, keyMap, keyMaps)\<close>.\<close>

definition jvm_hasForeignKey ::
  "jvmCheck \<Rightarrow> jDataFrame \<Rightarrow> string \<times> string \<Rightarrow> (string \<times> string) list \<Rightarrow> error + jvmCheck" where
  "jvm_hasForeignKey c referenceTable keyMap keyMaps =
     addConstraint c (ForeignKey referenceTable (keyMap # keyMaps))"

text \<open>Modelled from the spec: the engine method \<open>isJoinableWith(referenceTable, keyMap, keyMaps)\<close>.\<close>

definition jvm_isJoinableWith ::
  "jvmCheck \<Rightarrow> jDataFrame \<Rightarrow> string \<times> string \<Rightarrow> (string \<times> string) list \<Rightarrow> error + jvmCheck" where
  "jvm_isJoinableWith c referenceTable keyMap keyMaps =
     addConstraint c (Joinable referenceTable (keyMap # keyMaps))"

text \<open>Modelled from the spec: the engine method \<open>satisfies(constraint)\<close>.\<close>

definition jvm_satisfies :: "jvmCheck \<Rightarrow> string \<Rightarrow> error + jvmCheck" where
  "jvm_satisfies c constraint = addConstraint c (Satisfies constraint)"

text \<open>Modelled from the spec: \<open>iterableToScalaList\<close> and the other marshalling helpers of
  the module \<open>jvm_conversions\<close>
  (absent from the Python sources at hand). Section 9: they turn a native collection or tuple
  into the other runtime's collection type; elements and their order are unchanged.\<close>

definition iterableToScalaList :: "jvm \<Rightarrow> 'a list \<Rightarrow> 'a list" where
  "iterableToScalaList j xs = xs"

text \<open>Modelled from the spec: \<open>jvm_conversions.iterableToScalaSet\<close> (section 9):
  a native collection as the other runtime's set.\<close>

definition iterableToScalaSet :: "jvm \<Rightarrow> 'a list \<Rightarrow> 'a set" where
  "iterableToScalaSet j xs = set xs"

text \<open>Modelled from the spec: \<open>jvm_conversions.tuple2\<close> (section 9):
  a native pair as the other runtime's pair.\<close>

definition tuple2 :: "jvm \<Rightarrow> 'a \<times> 'b \<Rightarrow> 'a \<times> 'b" where
  "tuple2 j t = t"

text \<open>Modelled from the spec: \<open>jvm_conversions.simpleDateFormat\<close> (section 9):
  a date pattern as the other runtime's date format, kept as text. A malformed pattern
  is a construction error (section 7); which texts are well-formed date patterns is the
  other runtime's matter and enters as the parameter \<open>valid\<close>.\<close>

definition simpleDateFormat :: "(string \<Rightarrow> bool) \<Rightarrow> jvm \<Rightarrow> string \<Rightarrow> error + string" where
  "simpleDateFormat valid j s = (if valid s then Inr s else Inl ConstructionError)"

text \<open>\<open>self._jvm.org.apache.spark.sql.types.DataType.fromJson(targetType.json())\<close>:
  the target type travels as its JSON text.\<close>

definition fromJson :: "jvm \<Rightarrow> string \<Rightarrow> string" where
  "fromJson j json = json"

subsection \<open>The constraint-adding methods of \<open>Check\<close>\<close>

text \<open>\<open>self.jvmCheck\<close> and \<open>self._jvm\<close>, read as the objects the call needs.\<close>

definition self_jvmCheck :: "Check \<Rightarrow> error + jvmCheck" where
  "self_jvmCheck self = bindE (getattr self ''jvmCheck'') as_jvmCheck"

definition self_jvm :: "Check \<Rightarrow> error + jvm" where
  "self_jvm self = bindE (getattr self ''_jvm'') as_jvm"

text \<open>The last line of each of the eleven methods:
  \<open>return Check(self.dataFrame, self.displayName, jvmCheck)\<close>.
  The arguments are evaluated left to right, then the constructor runs.\<close>

definition return_Check :: "pyenv \<Rightarrow> Check \<Rightarrow> jvmCheck \<Rightarrow> error + Check" where
  "return_Check env self jvmCheck =
     bindE (bindE (getattr self ''dataFrame'') as_DataFrame) (\<lambda>df.
     bindE (getattr self ''displayName'') (\<lambda>dn.
       Inr (Check_init env df dn (PyJvmCheck jvmCheck))))"

text \<open>Lines 40-45. \<open>columnNames\<close> is the tuple of the remaining positional arguments.\<close>

definition hasUniqueKey :: "pyenv \<Rightarrow> Check \<Rightarrow> string \<Rightarrow> string list \<Rightarrow> error + Check" where
  "hasUniqueKey env self columnName columnNames =
     bindE (self_jvmCheck self) (\<lambda>c.
     bindE (self_jvm self) (\<lambda>j.
     bindE (jvm_hasUniqueKey c columnName (iterableToScalaList j columnNames)) (\<lambda>jvmCheck.
       return_Check env self jvmCheck)))"

text \<open>A call \<open>check.hasUniqueKey(*columns)\<close>: the signature
  \<open>(self, columnName, *columnNames)\<close> needs one positional argument at least.\<close>

fun hasUniqueKey_call :: "pyenv \<Rightarrow> Check \<Rightarrow> string list \<Rightarrow> error + Check" where
  "hasUniqueKey_call env self [] = Inl TypeError"
| "hasUniqueKey_call env self (columnName # columnNames) =
     hasUniqueKey env self columnName columnNames"

text \<open>Lines 47-49.\<close>

definition isNeverNull :: "pyenv \<Rightarrow> Check \<Rightarrow> string \<Rightarrow> error + Check" where
  "isNeverNull env self columnName =
     bindE (self_jvmCheck self) (\<lambda>c.
     bindE (jvm_isNeverNull c columnName) (\<lambda>jvmCheck.
       return_Check env self jvmCheck))"

text \<open>Lines 51-53.\<close>

definition isAlwaysNull :: "pyenv \<Rightarrow> Check \<Rightarrow> string \<Rightarrow> error + Check" where
  "isAlwaysNull env self columnName =
     bindE (self_jvmCheck self) (\<lambda>c.
     bindE (jvm_isAlwaysNull c columnName) (\<lambda>jvmCheck.
       return_Check env self jvmCheck))"

text \<open>Lines 55-60. \<open>targetType\<close> is given by its JSON text (\<open>targetType.json()\<close>).\<close>

definition isConvertibleTo :: "pyenv \<Rightarrow> Check \<Rightarrow> string \<Rightarrow> string \<Rightarrow> error + Check" where
  "isConvertibleTo env self columnName targetType =
     bindE (self_jvm self) (\<lambda>j.
       let jvmType = fromJson j targetType in
     bindE (self_jvmCheck self) (\<lambda>c.
     bindE (jvm_isConvertibleTo c columnName jvmType) (\<lambda>jvmCheck.
       return_Check env self jvmCheck)))"

text \<open>Lines 62-65. \<open>valid\<close> tells the well-formed date patterns.\<close>

definition isFormattedAsDate ::
  "pyenv \<Rightarrow> (string \<Rightarrow> bool) \<Rightarrow> Check \<Rightarrow> string \<Rightarrow> string \<Rightarrow> error + Check" where
  "isFormattedAsDate env valid self columnName dateFormat =
     bindE (self_jvm self) (\<lambda>j.
     bindE (simpleDateFormat valid j dateFormat) (\<lambda>jvmFormat.
     bindE (self_jvmCheck self) (\<lambda>c.
     bindE (jvm_isFormattedAsDate c columnName jvmFormat) (\<lambda>jvmCheck.
       return_Check env self jvmCheck))))"

text \<open>Lines 67-72.\<close>

definition isAnyOf :: "pyenv \<Rightarrow> Check \<Rightarrow> string \<Rightarrow> cell list \<Rightarrow> error + Check" where
  "isAnyOf env self columnName allowed =
     bindE (self_jvmCheck self) (\<lambda>c.
     bindE (self_jvm self) (\<lambda>j.
     bindE (jvm_isAnyOf c columnName (iterableToScalaSet j allowed)) (\<lambda>jvmCheck.
       return_Check env self jvmCheck)))"

text \<open>Lines 74-76. \<open>valid\<close> tells the well-formed patterns.\<close>

definition isMatchingRegex ::
  "pyenv \<Rightarrow> (string \<Rightarrow> bool) \<Rightarrow> Check \<Rightarrow> string \<Rightarrow> string \<Rightarrow> error + Check" where
  "isMatchingRegex env valid self columnName regexp =
     bindE (self_jvmCheck self) (\<lambda>c.
     bindE (jvm_isMatchingRegex valid c columnName regexp) (\<lambda>jvmCheck.
       return_Check env self jvmCheck))"

text \<open>Lines 78-83.\<close>

definition hasFunctionalDependency ::
  "pyenv \<Rightarrow> Check \<Rightarrow> string list \<Rightarrow> string list \<Rightarrow> error + Check" where
  "hasFunctionalDependency env self determinantSet dependentSet =
     bindE (self_jvmCheck self) (\<lambda>c.
     bindE (self_jvm self) (\<lambda>j.
     bindE (jvm_hasFunctionalDependency c
              (iterableToScalaList j determinantSet)
              (iterableToScalaList j dependentSet)) (\<lambda>jvmCheck.
       return_Check env self jvmCheck)))"

text \<open>Lines 85-94.\<close>

definition hasForeignKey ::
  "pyenv \<Rightarrow> Check \<Rightarrow> DataFrame \<Rightarrow> string \<times> string \<Rightarrow> (string \<times> string) list \<Rightarrow> error + Check" where
  "hasForeignKey env self referenceTable keyMap keyMaps =
     bindE (self_jvmCheck self) (\<lambda>c.
     bindE (self_jvm self) (\<lambda>j.
     bindE (jvm_hasForeignKey c (jdf referenceTable) (tuple2 j keyMap)
              (iterableToScalaList j (map (\<lambda>t. tuple2 j t) keyMaps))) (\<lambda>jvmCheck.
       return_Check env self jvmCheck)))"

text \<open>Lines 96-105.\<close>

definition isJoinableWith ::
  "pyenv \<Rightarrow> Check \<Rightarrow> DataFrame \<Rightarrow> string \<times> string \<Rightarrow> (string \<times> string) list \<Rightarrow> error + Check" where
  "isJoinableWith env self referenceTable keyMap keyMaps =
     bindE (self_jvmCheck self) (\<lambda>c.
     bindE (self_jvm self) (\<lambda>j.
     bindE (jvm_isJoinableWith c (jdf referenceTable) (tuple2 j keyMap)
              (iterableToScalaList j (map (\<lambda>t. tuple2 j t) keyMaps))) (\<lambda>jvmCheck.
       return_Check env self jvmCheck)))"

text \<open>Calls \<open>check.hasForeignKey(referenceTable, *keys)\<close> and
  \<open>check.isJoinableWith(referenceTable, *keys)\<close>: the signatures
  \<open>(self, referenceTable, keyMap, *keyMaps)\<close> need one key pair at least.\<close>

fun hasForeignKey_call ::
  "pyenv \<Rightarrow> Check \<Rightarrow> DataFrame \<Rightarrow> (string \<times> string) list \<Rightarrow> error + Check" where
  "hasForeignKey_call env self referenceTable [] = Inl TypeError"
| "hasForeignKey_call env self referenceTable (keyMap # keyMaps) =
     hasForeignKey env self referenceTable keyMap keyMaps"

fun isJoinableWith_call ::
  "pyenv \<Rightarrow> Check \<Rightarrow> DataFrame \<Rightarrow> (string \<times> string) list \<Rightarrow> error + Check" where
  "isJoinableWith_call env self referenceTable [] = Inl TypeError"
| "isJoinableWith_call env self referenceTable (keyMap # keyMaps) =
     isJoinableWith env self referenceTable keyMap keyMaps"

text \<open>Lines 107-109.\<close>

definition satisfies :: "pyenv \<Rightarrow> Check \<Rightarrow> string \<Rightarrow> error + Check" where
  "satisfies env self constraint =
     bindE (self_jvmCheck self) (\<lambda>c.
     bindE (jvm_satisfies c constraint) (\<lambda>jvmCheck.
       return_Check env self jvmCheck))"

subsection \<open>Running a check\<close>

text \<open>Modelled from the spec: the reporter classes of the module \<open>reporters\<close> (absent
  from the Python sources at hand). \<open>ConsoleReporter\<close> is the console-style one; any other
  reporter object is told apart by a number. \<open>getJvmReporter\<close> gives the engine-side
  reporter that a Python reporter stands for.\<close>

datatype reporter = ConsoleReporter | Reporter nat

text \<open>Modelled from the spec: an engine-side reporter, named by the Python reporter it
  was made from.\<close>

datatype jvmReporter = JvmReporter reporter

text \<open>Modelled from the spec: \<open>reporter.getJvmReporter(jvm)\<close>.\<close>

definition getJvmReporter :: "reporter \<Rightarrow> jvm \<Rightarrow> jvmReporter" where
  "getJvmReporter r j = JvmReporter r"

text \<open>Modelled from the spec: the status of a constraint result (section 3).\<close>

datatype status = Success | Failure | Error

text \<open>Modelled from the spec: ConstraintResult (section 3).\<close>

record constraintResult =
  cr_constraint :: constraint
  cr_status :: status
  cr_message :: string

text \<open>Modelled from the spec: VerificationResult (section 3), with the check's metadata
  as its first three fields.\<close>

record verificationResult =
  vr_displayName :: string
  columnCount :: nat
  rowCount :: nat
  constraintResults :: "constraintResult list"

text \<open>Modelled from the spec: \<open>toDisplayString()\<close> of a data source (section 6), the
  default display name: \<open>[col1: type1, col2: type2]\<close>.\<close>

definition toDisplayString :: "jDataFrame \<Rightarrow> string" where
  "toDisplayString df = ''['' @ join '', '' (map (\<lambda>(n, t). n @ '': '' @ t) (schema df)) @ '']''"

text \<open>Modelled from the spec: steps 1 to 3 of \<open>run\<close> (section 4.3). How one constraint
  is compiled, queried and interpreted is the engine's business and enters as the
  parameter \<open>interpret\<close>.\<close>

definition evaluate ::
  "(jDataFrame \<Rightarrow> constraint \<Rightarrow> constraintResult) \<Rightarrow> jvmCheck \<Rightarrow> verificationResult" where
  "evaluate interpret c =
     \<lparr>vr_displayName = (case jdisplayName c of Some n \<Rightarrow> n | None \<Rightarrow> toDisplayString (jdataFrame c)),
      columnCount = length (schema (jdataFrame c)),
      rowCount = length (rows (jdataFrame c)),
      constraintResults = map (interpret (jdataFrame c)) (jconstraints c)\<rparr>"

text \<open>Modelled from the spec: what a run leaves behind: the reports made, in order, and
  the result returned.\<close>

record runOutcome =
  reported :: "(jvmReporter \<times> verificationResult) list"
  returned :: verificationResult

text \<open>Modelled from the spec: the engine's \<open>run(reporters)\<close> (section 4.3, step 4): each
  reporter of the supplied sequence, in its order, is handed the VerificationResult,
  which is also returned. The calls of \<open>report\<close> are recorded as the list \<open>reported\<close>.\<close>

definition jvm_run ::
  "(jDataFrame \<Rightarrow> constraint \<Rightarrow> constraintResult) \<Rightarrow> jvmCheck \<Rightarrow> jvmReporter list \<Rightarrow> runOutcome" where
  "jvm_run interpret c reporters =
     (let vr = evaluate interpret c
      in \<lparr>reported = map (\<lambda>r. (r, vr)) reporters, returned = vr\<rparr>)"

text \<open>\<open>not reporters\<close> at line 112: true of \<open>None\<close> (the default) and of an empty
  sequence.\<close>

fun not_reporters :: "reporter list option \<Rightarrow> bool" where
  "not_reporters None = True"
| "not_reporters (Some rs) = (rs = [])"

text \<open>Lines 111-119.\<close>

definition run ::
  "(jDataFrame \<Rightarrow> constraint \<Rightarrow> constraintResult) \<Rightarrow> Check \<Rightarrow> reporter list option
     \<Rightarrow> error + runOutcome" where
  "run interpret self reporters =
     (let reporters = (if not_reporters reporters then [ConsoleReporter]
                       else (case reporters of Some rs \<Rightarrow> rs | None \<Rightarrow> []))
      in bindE (self_jvm self) (\<lambda>j.
           let jvmReporters = iterableToScalaList j (map (\<lambda>reporter. getJvmReporter reporter j) reporters)
           in bindE (self_jvmCheck self) (\<lambda>c. Inr (jvm_run interpret c jvmReporters))))"

subsection \<open>The unique-key test of the repository\<close>

text \<open>The data of \<open>testHasUniqueKey\<close> (\<open>test_constraints.py\<close>, line 21):
  \<open>createDataFrame([(1, "a"), (1, None), (3, "c")])\<close>, with the schema the test expects
  in its header line; a second table of the same schema; and an interpreter state.\<close>

definition example_df :: DataFrame where
  "example_df =
     \<lparr>sc_jvm = JvmView,
      jdf = \<lparr>schema = [(''_1'', ''bigint''), (''_2'', ''string'')],
             rows = [[IntV 1, StrV ''a''], [IntV 1, NullV], [IntV 3, StrV ''c'']]\<rparr>\<rparr>"

definition other_df :: DataFrame where
  "other_df =
     \<lparr>sc_jvm = JvmView,
      jdf = \<lparr>schema = [(''_1'', ''bigint''), (''_2'', ''string'')],
             rows = [[IntV 1, StrV ''a''], [IntV 2, StrV ''b''], [IntV 3, StrV ''c'']]\<rparr>\<rparr>"

definition example_env :: pyenv where
  "example_env = \<lparr>str_uuid4 = ''<function uuid4 at 0x7f1d2c3b4a28>''\<rparr>"

text \<open>Lines 22-23 of the test:
  \<open>check = Check(df).hasUniqueKey("_1").hasUniqueKey("_1", "_2")\<close>, then
  \<open>check.run([self.reporter])\<close>.\<close>

definition testHasUniqueKey ::
  "(jDataFrame \<Rightarrow> constraint \<Rightarrow> constraintResult) \<Rightarrow> pyenv \<Rightarrow> error + runOutcome" where
  "testHasUniqueKey interpret env =
     (let df = example_df
      in bindE (bindE (hasUniqueKey env (Check_init env df PyNone PyNone) ''_1'' [])
                      (\<lambda>c. hasUniqueKey env c ''_1'' [''_2'']))
               (\<lambda>check. run interpret check (Some [Reporter 0])))"

text \<open>Modelled from the spec: the position of a column in the schema of a data source
  (section 3, DataSource).\<close>

fun column_index :: "(string \<times> string) list \<Rightarrow> string \<Rightarrow> nat option" where
  "column_index [] n = None"
| "column_index ((m, t) # cs) n =
     (if m = n then Some 0 else map_option Suc (column_index cs n))"

text \<open>Modelled from the spec: the number of distinct key tuples that repeat (section 4.1,
  UniqueKey).\<close>

definition nonUniqueTuples :: "cell list list \<Rightarrow> nat" where
  "nonUniqueTuples ks = length (filter (\<lambda>k. 1 < count_list ks k) (remdups ks))"

text \<open>Modelled from the spec: what the engine does with a UniqueKey constraint
  (section 4.1): it counts the key tuples that occur in more than one row; Success if
  there is none, Failure with that count otherwise; Error when a column is unknown.\<close>

definition check_UniqueKey :: "jDataFrame \<Rightarrow> string list \<Rightarrow> status \<times> nat" where
  "check_UniqueKey df cols =
     (case those (map (column_index (schema df)) cols) of
        None \<Rightarrow> (Error, 0)
      | Some ixs \<Rightarrow>
          if list_all (\<lambda>r. length r = length (schema df)) (rows df)
          then (let n = nonUniqueTuples (map (\<lambda>r. map (\<lambda>i. r ! i) ixs) (rows df))
                in (if n = 0 then Success else Failure, n))
          else (Error, 0))"

text \<open>Modelled from the spec: one bullet line of the report text (section 6).\<close>

fun bullet :: "status \<Rightarrow> string \<Rightarrow> string" where
  "bullet Success msg = ''- *SUCCESS*: '' @ msg"
| "bullet Failure msg = ''- *FAILURE*: '' @ msg"
| "bullet Error msg = ''- *ERROR*: '' @ msg"

section \<open>Properties of the constructor\<close>

lemma inst_dict_Check_init:
  "inst_dict (Check_init env df dn j) =
     [(''_dataFrame'', PyDataFrame df), (''_jvm'', PyJvm (sc_jvm df)), (''_displayName'', dn),
      (''jvmCheck'',
         if truthy j then j
         else PyJvmCheck (jvm_Check (jdf df) None None [] (str_uuid4 env)))]"
  by (simp add: Check_init_def setattr_def Let_def)

lemma attr_dataFrame:
  "inst_attr (Check_init env df dn j) ''_dataFrame'' = Inr (PyDataFrame df)"
  by (simp add: inst_attr_def inst_dict_Check_init)

lemma attr_jvm:
  "inst_attr (Check_init env df dn j) ''_jvm'' = Inr (PyJvm (sc_jvm df))"
  by (simp add: inst_attr_def inst_dict_Check_init)

lemma attr_displayName:
  "inst_attr (Check_init env df dn j) ''_displayName'' = Inr dn"
  by (simp add: inst_attr_def inst_dict_Check_init)

lemma attr_jvmCheck:
  "inst_attr (Check_init env df dn j) ''jvmCheck'' =
     Inr (if truthy j then j
          else PyJvmCheck (jvm_Check (jdf df) None None [] (str_uuid4 env)))"
  by (simp add: inst_attr_def inst_dict_Check_init)

text \<open>The constructor assigns neither \<open>_cacheMethod\<close> nor \<open>_id\<close>, and the class has no
  attribute \<open>displayName\<close>: the property is called \<open>name\<close>, the field \<open>_displayName\<close>.\<close>

lemma attr_cacheMethod:
  "inst_attr (Check_init env df dn j) ''_cacheMethod'' = Inl (AttributeError ''_cacheMethod'')"
  by (simp add: inst_attr_def inst_dict_Check_init Check_methods_def)

lemma attr_id:
  "inst_attr (Check_init env df dn j) ''_id'' = Inl (AttributeError ''_id'')"
  by (simp add: inst_attr_def inst_dict_Check_init Check_methods_def)

lemma getattr_displayName:
  "getattr (Check_init env df dn j) ''displayName'' = Inl (AttributeError ''displayName'')"
  by (simp add: getattr_def inst_attr_def inst_dict_Check_init Check_methods_def)

lemma getattr_dataFrame:
  "getattr (Check_init env df dn j) ''dataFrame'' = Inr (PyDataFrame df)"
  by (simp add: getattr_def dataFrame_def attr_dataFrame)

lemma self_jvm_init: "self_jvm (Check_init env df dn j) = Inr (sc_jvm df)"
  by (simp add: self_jvm_def getattr_def attr_jvm bindE_def)

lemma self_jvmCheck_fresh:
  "self_jvmCheck (Check_init env df dn PyNone) =
     Inr (jvm_Check (jdf df) None None [] (str_uuid4 env))"
  by (simp add: self_jvmCheck_def getattr_def attr_jvmCheck bindE_def)

lemma self_jvmCheck_handle:
  "self_jvmCheck (Check_init env df dn (PyJvmCheck c)) = Inr c"
  by (simp add: self_jvmCheck_def getattr_def attr_jvmCheck bindE_def)

text \<open>C9. A Check built without an engine handle creates its engine check with no
  display name, no cache method, no constraints and the id text, whatever the
  \<open>displayName\<close> argument is; the argument is kept in the wrapper's \<open>_displayName\<close> only.\<close>

theorem engine_check_without_displayName:
  "self_jvmCheck (Check_init env df dn PyNone) =
     Inr \<lparr>jdataFrame = jdf df, jdisplayName = None, jcacheMethod = None,
          jconstraints = [], jid = str_uuid4 env\<rparr>
   \<and> inst_attr (Check_init env df dn PyNone) ''_displayName'' = Inr dn"
  by (simp add: self_jvmCheck_fresh attr_displayName jvm_Check_def)

text \<open>C10. On every Check the constructor builds, reading \<open>cacheMethod\<close> raises
  \<open>AttributeError\<close>: the constructor, the only code that assigns attributes, assigns
  exactly \<open>_dataFrame\<close>, \<open>_jvm\<close>, \<open>_displayName\<close> and \<open>jvmCheck\<close>.\<close>

theorem cacheMethod_raises_AttributeError:
  "cacheMethod (Check_init env df dn j) = Inl (AttributeError ''_cacheMethod'')
   \<and> getattr (Check_init env df dn j) ''cacheMethod'' = Inl (AttributeError ''_cacheMethod'')
   \<and> map fst (inst_dict (Check_init env df dn j)) =
       [''_dataFrame'', ''_jvm'', ''_displayName'', ''jvmCheck'']"
  by (simp add: cacheMethod_def getattr_def attr_cacheMethod inst_dict_Check_init)

section \<open>The id of a Check\<close>

lemma jvmCheck_id_fresh: "jvmCheck_id (Check_init env df dn PyNone) = Inr (str_uuid4 env)"
  by (simp add: jvmCheck_id_def attr_jvmCheck bindE_def jvm_Check_def)

lemma id_Check_raises: "id_Check (Check_init env df dn j) = Inl (AttributeError ''_id'')"
  by (simp add: id_Check_def attr_id bindE_def)

text \<open>C2. The spec wants a fresh id for every Check, different for any two Checks.
  Line 15 takes \<open>str(uuid4)\<close>, the text of the function object, without calling it: two
  Checks over two different tables hand the same id to the engine, and the wrapper's
  own \<open>id\<close> property raises \<open>AttributeError\<close> because \<open>_id\<close> is never assigned.\<close>

theorem independent_checks_share_id:
  "example_df \<noteq> other_df
   \<and> jvmCheck_id (Check_init example_env example_df PyNone PyNone)
       = Inr ''<function uuid4 at 0x7f1d2c3b4a28>''
   \<and> jvmCheck_id (Check_init example_env other_df PyNone PyNone)
       = Inr ''<function uuid4 at 0x7f1d2c3b4a28>''
   \<and> id_Check (Check_init example_env example_df PyNone PyNone) = Inl (AttributeError ''_id'')"
  by (simp add: jvmCheck_id_fresh id_Check_raises example_env_def example_df_def other_df_def)

section \<open>The name of a Check\<close>

lemma name_truthy: "truthy dn \<Longrightarrow> name (Check_init env df dn j) = Inr dn"
  by (simp add: name_def attr_displayName bindE_def)

lemma name_falsy:
  "\<not> truthy dn \<Longrightarrow> name (Check_init env df dn j) = Inr (PyStr (str_DataFrame df))"
  by (simp add: name_def attr_displayName dataFrame_def attr_dataFrame bindE_def)

text \<open>C7, as stated, fails for the display name \<open>""\<close>: \<open>or\<close> at line 30 takes the empty
  string for a missing name, and the name is the rendering of the table.\<close>

theorem name_empty_displayName_counterexample:
  "name (Check_init example_env example_df (PyStr '''') PyNone)
     = Inr (PyStr ''DataFrame[_1: bigint, _2: string]'')
   \<and> name (Check_init example_env example_df (PyStr '''') PyNone) \<noteq> Inr (PyStr '''')"
  by (simp add: name_falsy str_DataFrame_def example_df_def)

text \<open>C7, amended. The name of a Check built with a non-empty display name is that
  display name; built with the empty string or without a display name, it is
  \<open>str(dataFrame)\<close>, the rendering \<open>DataFrame[name: type, ...]\<close> of the table's schema.\<close>

theorem name_displayName_or_schema:
  "name (Check_init env df (PyStr (c # cs)) j) = Inr (PyStr (c # cs))
   \<and> name (Check_init env df (PyStr []) j) = Inr (PyStr (str_DataFrame df))
   \<and> name (Check_init env df PyNone j) = Inr (PyStr (str_DataFrame df))"
  by (simp add: name_truthy name_falsy)

section \<open>Running\<close>

lemma run_fresh:
  "run interpret (Check_init env df dn PyNone) reporters =
     Inr (jvm_run interpret (jvm_Check (jdf df) None None [] (str_uuid4 env))
        (map (\<lambda>r. getJvmReporter r (sc_jvm df))
           (if not_reporters reporters then [ConsoleReporter]
            else (case reporters of Some rs \<Rightarrow> rs | None \<Rightarrow> []))))"
  by (simp add: run_def self_jvm_init self_jvmCheck_fresh bindE_def iterableToScalaList_def Let_def)

lemma run_handle:
  "run interpret (Check_init env df dn (PyJvmCheck c)) reporters =
     Inr (jvm_run interpret c
        (map (\<lambda>r. getJvmReporter r (sc_jvm df))
           (if not_reporters reporters then [ConsoleReporter]
            else (case reporters of Some rs \<Rightarrow> rs | None \<Rightarrow> []))))"
  by (simp add: run_def self_jvm_init self_jvmCheck_handle bindE_def iterableToScalaList_def Let_def)

text \<open>C5. \<open>run\<close> called with no reporters, with \<open>None\<close> or with an empty sequence hands the
  engine the one-element list holding a console reporter, and the run is reported to
  that reporter once. Stated for a Check built without and with an engine handle.\<close>

theorem run_defaults_to_console_reporter:
  "run interpret (Check_init env df dn PyNone) None =
      Inr (jvm_run interpret (jvm_Check (jdf df) None None [] (str_uuid4 env))
             [getJvmReporter ConsoleReporter (sc_jvm df)])
   \<and> run interpret (Check_init env df dn PyNone) (Some []) =
      run interpret (Check_init env df dn PyNone) None
   \<and> run interpret (Check_init env df dn (PyJvmCheck c)) None =
      Inr (jvm_run interpret c [getJvmReporter ConsoleReporter (sc_jvm df)])
   \<and> run interpret (Check_init env df dn (PyJvmCheck c)) (Some []) =
      run interpret (Check_init env df dn (PyJvmCheck c)) None
   \<and> reported (jvm_run interpret c [getJvmReporter ConsoleReporter (sc_jvm df)]) =
      [(JvmReporter ConsoleReporter, evaluate interpret c)]"
  by (simp add: run_fresh run_handle jvm_run_def getJvmReporter_def Let_def)

text \<open>C6. \<open>run\<close> called with a non-empty sequence of reporters hands the engine their
  engine-side reporters in the caller's order, one per element, and the reports made
  are one per element in that order, each with the result of the run: nothing is
  dropped, merged or moved. Stated for a Check built without and with an engine handle.\<close>

theorem run_reports_in_order:
  "run interpret (Check_init env df dn PyNone) (Some (r # rs)) =
      Inr \<lparr>reported = map (\<lambda>x. (JvmReporter x,
                evaluate interpret (jvm_Check (jdf df) None None [] (str_uuid4 env)))) (r # rs),
           returned = evaluate interpret (jvm_Check (jdf df) None None [] (str_uuid4 env))\<rparr>
   \<and> run interpret (Check_init env df dn (PyJvmCheck c)) (Some (r # rs)) =
      Inr \<lparr>reported = map (\<lambda>x. (JvmReporter x, evaluate interpret c)) (r # rs),
           returned = evaluate interpret c\<rparr>"
  by (simp add: run_fresh run_handle jvm_run_def getJvmReporter_def Let_def)

lemma run_same_reporter_twice:
  "map fst (reported (jvm_run interpret c
      (map (\<lambda>r. getJvmReporter r JvmView) [Reporter 1, Reporter 1])))
     = [JvmReporter (Reporter 1), JvmReporter (Reporter 1)]"
  by (simp add: jvm_run_def getJvmReporter_def Let_def)

section \<open>The constraint-adding methods\<close>

lemma return_Check_raises:
  "return_Check env' (Check_init env df dn j) c = Inl (AttributeError ''displayName'')"
  by (simp add: return_Check_def getattr_dataFrame getattr_displayName bindE_def)

lemmas init_simps = self_jvm_init self_jvmCheck_fresh self_jvmCheck_handle return_Check_raises
  bindE_def addConstraint_def iterableToScalaList_def iterableToScalaSet_def tuple2_def
  simpleDateFormat_def fromJson_def Let_def

text \<open>What each method returns on a Check built by the constructor, without and with an
  engine handle: with an empty argument or a malformed pattern the engine call fails and
  its construction error passes through the binding; otherwise the engine call succeeds
  and the last line of the method raises.\<close>

lemma hasUniqueKey_result:
  "hasUniqueKey env (Check_init env df dn PyNone) columnName columnNames
     = Inl (if columns_nonempty (columnName # columnNames)
            then AttributeError ''displayName'' else ConstructionError)"
  "hasUniqueKey env (Check_init env df dn (PyJvmCheck c)) columnName columnNames
     = Inl (if columns_nonempty (columnName # columnNames)
            then AttributeError ''displayName'' else ConstructionError)"
  by (simp_all add: hasUniqueKey_def jvm_hasUniqueKey_def init_simps)

lemma isNeverNull_result:
  "isNeverNull env (Check_init env df dn PyNone) columnName
     = Inl (if columnName \<noteq> [] then AttributeError ''displayName'' else ConstructionError)"
  "isNeverNull env (Check_init env df dn (PyJvmCheck c)) columnName
     = Inl (if columnName \<noteq> [] then AttributeError ''displayName'' else ConstructionError)"
  by (simp_all add: isNeverNull_def jvm_isNeverNull_def init_simps)

lemma isAlwaysNull_result:
  "isAlwaysNull env (Check_init env df dn PyNone) columnName
     = Inl (if columnName \<noteq> [] then AttributeError ''displayName'' else ConstructionError)"
  "isAlwaysNull env (Check_init env df dn (PyJvmCheck c)) columnName
     = Inl (if columnName \<noteq> [] then AttributeError ''displayName'' else ConstructionError)"
  by (simp_all add: isAlwaysNull_def jvm_isAlwaysNull_def init_simps)

lemma isConvertibleTo_result:
  "isConvertibleTo env (Check_init env df dn PyNone) columnName targetType
     = Inl (if columnName \<noteq> [] \<and> targetType \<noteq> []
            then AttributeError ''displayName'' else ConstructionError)"
  "isConvertibleTo env (Check_init env df dn (PyJvmCheck c)) columnName targetType
     = Inl (if columnName \<noteq> [] \<and> targetType \<noteq> []
            then AttributeError ''displayName'' else ConstructionError)"
  by (simp_all add: isConvertibleTo_def jvm_isConvertibleTo_def init_simps)

lemma isFormattedAsDate_result:
  "isFormattedAsDate env valid (Check_init env df dn PyNone) columnName dateFormat
     = Inl (if valid dateFormat \<and> columnName \<noteq> [] \<and> dateFormat \<noteq> []
            then AttributeError ''displayName'' else ConstructionError)"
  "isFormattedAsDate env valid (Check_init env df dn (PyJvmCheck c)) columnName dateFormat
     = Inl (if valid dateFormat \<and> columnName \<noteq> [] \<and> dateFormat \<noteq> []
            then AttributeError ''displayName'' else ConstructionError)"
  by (simp_all add: isFormattedAsDate_def jvm_isFormattedAsDate_def init_simps)

lemma isAnyOf_result:
  "isAnyOf env (Check_init env df dn PyNone) columnName allowed
     = Inl (if columnName \<noteq> [] \<and> allowed \<noteq> []
            then AttributeError ''displayName'' else ConstructionError)"
  "isAnyOf env (Check_init env df dn (PyJvmCheck c)) columnName allowed
     = Inl (if columnName \<noteq> [] \<and> allowed \<noteq> []
            then AttributeError ''displayName'' else ConstructionError)"
  by (simp_all add: isAnyOf_def jvm_isAnyOf_def init_simps)

lemma isMatchingRegex_result:
  "isMatchingRegex env valid (Check_init env df dn PyNone) columnName regexp
     = Inl (if valid regexp \<and> columnName \<noteq> [] \<and> regexp \<noteq> []
            then AttributeError ''displayName'' else ConstructionError)"
  "isMatchingRegex env valid (Check_init env df dn (PyJvmCheck c)) columnName regexp
     = Inl (if valid regexp \<and> columnName \<noteq> [] \<and> regexp \<noteq> []
            then AttributeError ''displayName'' else ConstructionError)"
  by (simp_all add: isMatchingRegex_def jvm_isMatchingRegex_def init_simps)

lemma hasFunctionalDependency_result:
  "hasFunctionalDependency env (Check_init env df dn PyNone) ds es =
     Inl (if columns_nonempty ds \<and> columns_nonempty es
          then AttributeError ''displayName'' else ConstructionError)"
  "hasFunctionalDependency env (Check_init env df dn (PyJvmCheck c)) ds es =
     Inl (if columns_nonempty ds \<and> columns_nonempty es
          then AttributeError ''displayName'' else ConstructionError)"
  by (simp_all add: hasFunctionalDependency_def jvm_hasFunctionalDependency_def init_simps)

lemma hasForeignKey_result:
  "hasForeignKey env (Check_init env df dn PyNone) ref keyMap keyMaps
     = Inl (if keys_nonempty (keyMap # keyMaps)
            then AttributeError ''displayName'' else ConstructionError)"
  "hasForeignKey env (Check_init env df dn (PyJvmCheck c)) ref keyMap keyMaps
     = Inl (if keys_nonempty (keyMap # keyMaps)
            then AttributeError ''displayName'' else ConstructionError)"
  by (simp_all add: hasForeignKey_def jvm_hasForeignKey_def init_simps)

lemma isJoinableWith_result:
  "isJoinableWith env (Check_init env df dn PyNone) ref keyMap keyMaps
     = Inl (if keys_nonempty (keyMap # keyMaps)
            then AttributeError ''displayName'' else ConstructionError)"
  "isJoinableWith env (Check_init env df dn (PyJvmCheck c)) ref keyMap keyMaps
     = Inl (if keys_nonempty (keyMap # keyMaps)
            then AttributeError ''displayName'' else ConstructionError)"
  by (simp_all add: isJoinableWith_def jvm_isJoinableWith_def init_simps)

lemma satisfies_result:
  "satisfies env (Check_init env df dn PyNone) constraint
     = Inl (if constraint \<noteq> [] then AttributeError ''displayName'' else ConstructionError)"
  "satisfies env (Check_init env df dn (PyJvmCheck c)) constraint
     = Inl (if constraint \<noteq> [] then AttributeError ''displayName'' else ConstructionError)"
  by (simp_all add: satisfies_def jvm_satisfies_def init_simps)

text \<open>C1. The spec has every constraint-adding method return a new Check and leave the
  receiver as it was. As written, the last line of each of the eleven methods reads
  \<open>self.displayName\<close>, which is neither a property or method of the class nor an
  attribute the constructor assigns: on a Check built by the constructor, each method
  called with valid arguments (no empty argument, no malformed pattern) raises
  \<open>AttributeError\<close> after the engine call, and no Check is returned. With an invalid
  argument the call has failed before, with the construction error; no call returns
  a Check.\<close>

theorem constraint_methods_raise_AttributeError:
  "hasUniqueKey env (Check_init env df dn PyNone) columnName columnNames
     = Inl (if columns_nonempty (columnName # columnNames)
            then AttributeError ''displayName'' else ConstructionError)
 \<and> isNeverNull env (Check_init env df dn PyNone) columnName
     = Inl (if columnName \<noteq> [] then AttributeError ''displayName'' else ConstructionError)
 \<and> isAlwaysNull env (Check_init env df dn PyNone) columnName
     = Inl (if columnName \<noteq> [] then AttributeError ''displayName'' else ConstructionError)
 \<and> isConvertibleTo env (Check_init env df dn PyNone) columnName targetType
     = Inl (if columnName \<noteq> [] \<and> targetType \<noteq> []
            then AttributeError ''displayName'' else ConstructionError)
 \<and> isFormattedAsDate env valid_date (Check_init env df dn PyNone) columnName dateFormat
     = Inl (if valid_date dateFormat \<and> columnName \<noteq> [] \<and> dateFormat \<noteq> []
            then AttributeError ''displayName'' else ConstructionError)
 \<and> isAnyOf env (Check_init env df dn PyNone) columnName allowed
     = Inl (if columnName \<noteq> [] \<and> allowed \<noteq> []
            then AttributeError ''displayName'' else ConstructionError)
 \<and> isMatchingRegex env valid_regex (Check_init env df dn PyNone) columnName regexp
     = Inl (if valid_regex regexp \<and> columnName \<noteq> [] \<and> regexp \<noteq> []
            then AttributeError ''displayName'' else ConstructionError)
 \<and> hasFunctionalDependency env (Check_init env df dn PyNone) determinantSet dependentSet
     = Inl (if columns_nonempty determinantSet \<and> columns_nonempty dependentSet
            then AttributeError ''displayName'' else ConstructionError)
 \<and> hasForeignKey env (Check_init env df dn PyNone) ref keyMap keyMaps
     = Inl (if keys_nonempty (keyMap # keyMaps)
            then AttributeError ''displayName'' else ConstructionError)
 \<and> isJoinableWith env (Check_init env df dn PyNone) ref keyMap keyMaps
     = Inl (if keys_nonempty (keyMap # keyMaps)
            then AttributeError ''displayName'' else ConstructionError)
 \<and> satisfies env (Check_init env df dn PyNone) constraint
     = Inl (if constraint \<noteq> [] then AttributeError ''displayName'' else ConstructionError)"
  by (simp only: hasUniqueKey_result isNeverNull_result isAlwaysNull_result
      isConvertibleTo_result isFormattedAsDate_result isAnyOf_result isMatchingRegex_result
      hasFunctionalDependency_result hasForeignKey_result isJoinableWith_result
      satisfies_result simp_thms)

text \<open>The same at the arguments of the repository's tests, which are valid: every one of
  the eleven calls raises \<open>AttributeError\<close>.\<close>

lemma test_calls_raise_AttributeError:
  "hasUniqueKey env (Check_init env df dn PyNone) ''_1'' [''_2'']
     = Inl (AttributeError ''displayName'')"
  "isNeverNull env (Check_init env df dn PyNone) ''_1'' = Inl (AttributeError ''displayName'')"
  "isAlwaysNull env (Check_init env df dn PyNone) ''_1'' = Inl (AttributeError ''displayName'')"
  "isConvertibleTo env (Check_init env df dn PyNone) ''_1'' ''\"integer\"''
     = Inl (AttributeError ''displayName'')"
  "isFormattedAsDate env (\<lambda>p. True) (Check_init env df dn PyNone) ''_1'' ''yyyy-MM-dd HH:mm:ss''
     = Inl (AttributeError ''displayName'')"
  "isAnyOf env (Check_init env df dn PyNone) ''_1'' [IntV 1, IntV 2]
     = Inl (AttributeError ''displayName'')"
  "isMatchingRegex env (\<lambda>p. True) (Check_init env df dn PyNone) ''_1'' ''^Hello''
     = Inl (AttributeError ''displayName'')"
  "hasFunctionalDependency env (Check_init env df dn PyNone) [''_1'', ''_2''] [''_3'']
     = Inl (AttributeError ''displayName'')"
  "hasForeignKey env (Check_init env df dn PyNone) ref (''_1'', ''_1'') [(''_2'', ''_2'')]
     = Inl (AttributeError ''displayName'')"
  "isJoinableWith env (Check_init env df dn PyNone) ref (''_1'', ''_1'') [(''_2'', ''_2'')]
     = Inl (AttributeError ''displayName'')"
  "satisfies env (Check_init env df dn PyNone) ''_1 > 0'' = Inl (AttributeError ''displayName'')"
  by (simp_all add: hasUniqueKey_result isNeverNull_result isAlwaysNull_result
      isConvertibleTo_result isFormattedAsDate_result isAnyOf_result isMatchingRegex_result
      hasFunctionalDependency_result hasForeignKey_result isJoinableWith_result
      satisfies_result columns_nonempty_def keys_nonempty_def)


text \<open>A call that leaves out the required first column or key pair does not reach the
  method body: the interpreter refuses it at the call.\<close>

lemma calls_without_required_argument:
  "hasUniqueKey_call env self [] = Inl TypeError"
  "hasForeignKey_call env self ref [] = Inl TypeError"
  "isJoinableWith_call env self ref [] = Inl TypeError"
  by simp_all

text \<open>C4. The spec has a constraint-adding call return a Check with the receiver's data
  source, display name and cache method and one more constraint at the end. As written
  (see C1) no Check is returned: on a Check named \<open>base\<close> over the test's table,
  \<open>hasUniqueKey("_1", "_2")\<close> and \<open>isNeverNull("_1")\<close> raise \<open>AttributeError\<close>.\<close>

theorem derived_check_not_returned:
  "hasUniqueKey example_env (Check_init example_env example_df (PyStr ''base'') PyNone)
      ''_1'' [''_2'']
     = Inl (AttributeError ''displayName'')
 \<and> isNeverNull example_env (Check_init example_env example_df (PyStr ''base'') PyNone) ''_1''
     = Inl (AttributeError ''displayName'')"
  by (simp add: hasUniqueKey_result isNeverNull_result columns_nonempty_def)

text \<open>What the engine, as specified, had built by then: the check extended by one
  constraint at the end, twice.\<close>

lemma engine_chain:
  "bindE (jvm_hasUniqueKey (jvm_Check (jdf example_df) None None [] i) ''_1'' [])
      (\<lambda>c. jvm_hasUniqueKey c ''_1'' [''_2''])
   = Inr (jvm_Check (jdf example_df) None None [UniqueKey [''_1''], UniqueKey [''_1'', ''_2'']] i)"
  by (simp add: jvm_hasUniqueKey_def addConstraint_def bindE_def jvm_Check_def
      columns_nonempty_def)

text \<open>C8. The test expects, for the table \<open>[(1, "a"), (1, None), (3, "c")]\<close>, a FAILURE
  line for the key \<open>_1\<close> and a SUCCESS line for the key \<open>(_1, _2)\<close>. As written, the first
  \<open>hasUniqueKey\<close> of the test's chain raises \<open>AttributeError\<close> (see C1): the second call
  and \<open>run\<close> are never reached and nothing is reported, whatever the engine does with a
  constraint.\<close>

theorem testHasUniqueKey_raises:
  "testHasUniqueKey interpret example_env = Inl (AttributeError ''displayName'')"
  by (simp add: testHasUniqueKey_def hasUniqueKey_result bindE_def columns_nonempty_def)

text \<open>The engine as specified agrees with the test on this table: one key tuple of
  \<open>_1\<close> is not unique, none of \<open>(_1, _2)\<close> is, and the bullet lines are the expected ones.\<close>

lemma engine_UniqueKey_example:
  "check_UniqueKey (jdf example_df) [''_1''] = (Failure, 1)
 \<and> check_UniqueKey (jdf example_df) [''_1'', ''_2''] = (Success, 0)
 \<and> bullet Failure ''Column _1 is not a key (1 non-unique tuple).''
      = ''- *FAILURE*: Column _1 is not a key (1 non-unique tuple).''
 \<and> bullet Success ''Columns _1, _2 are a key.'' = ''- *SUCCESS*: Columns _1, _2 are a key.''"
  by (simp add: check_UniqueKey_def example_df_def nonUniqueTuples_def)

end
